theory Spec2Isabelle
  imports Complex_Main "HOL-Library.AList" "HOL-Library.Product_Lexorder"
begin

section \<open>JavaScript dates\<close>

text \<open>
  A \<^verbatim>\<open>Date\<close> is its time value: the milliseconds since 1970-01-01T00:00Z, an \<^typ>\<open>int\<close>.
  The ISO strings the store keeps (\<^verbatim>\<open>toISOString()\<close>, parsed back by \<^verbatim>\<open>new Date(s)\<close>)
  are identified with the time value they denote. The functions below are the abstract
  operations of ECMAScript (Day, TimeWithinDay, DayFromYear, YearFromTime, MonthFromTime,
  DateFromTime, MakeDay, MakeDate) and the \<^verbatim>\<open>Date.prototype\<close> methods built from them.
  Time values are integers of at most 8.64e15 in absolute value, below 2^53, so the
  doubles that hold them and the sums, differences and products the methods form of them
  are exact; a result beyond that range is the invalid date (\<^verbatim>\<open>TimeClip\<close>). The local time
  zone is a parameter.
\<close>

definition msPerDay :: int where
  "msPerDay = 86400000"

definition Day :: "int \<Rightarrow> int" where
  "Day t = t div msPerDay"

definition TimeWithinDay :: "int \<Rightarrow> int" where
  "TimeWithinDay t = t mod msPerDay"

definition DaysInYear :: "int \<Rightarrow> int" where
  "DaysInYear y =
     (if y mod 4 \<noteq> 0 then 365
      else if y mod 100 \<noteq> 0 then 366
      else if y mod 400 \<noteq> 0 then 365
      else 366)"

definition DayFromYear :: "int \<Rightarrow> int" where
  "DayFromYear y =
     365 * (y - 1970) + (y - 1969) div 4 - (y - 1901) div 100 + (y - 1601) div 400"

text \<open>
  From one year to the next \<open>DayFromYear\<close> grows by the days of the year; the search for
  the year of a day terminates by this.
\<close>

lemma div_step:
  fixes x k :: int
  assumes "0 < k"
  shows "(x + 1) div k = x div k + (if (x + 1) mod k = 0 then 1 else 0)"
proof (cases "(x + 1) mod k = 0")
  case True
  have e: "k * ((x + 1) div k) + (x + 1) mod k = x + 1"
    by (rule mult_div_mod_eq)
  have "x = k * ((x + 1) div k - 1) + (k - 1)"
    using e True by (simp add: right_diff_distrib)
  then have "x div k = (x + 1) div k - 1"
    by (rule int_div_pos_eq) (use assms in simp_all)
  with True show ?thesis by simp
next
  case False
  have e: "k * ((x + 1) div k) + (x + 1) mod k = x + 1"
    by (rule mult_div_mod_eq)
  have r: "0 \<le> (x + 1) mod k" "(x + 1) mod k < k"
    using assms by simp_all
  have "x = k * ((x + 1) div k) + ((x + 1) mod k - 1)"
    using e by linarith
  then have "x div k = (x + 1) div k"
    by (rule int_div_pos_eq) (use r False in simp_all)
  with False show ?thesis by simp
qed

lemma mod4_shift: "((y::int) - 1968) mod 4 = y mod 4"
proof -
  have "y - 1968 = y + 4 * (- 492)" by simp
  then show ?thesis by (simp only: mod_mult_self2)
qed

lemma mod100_shift: "((y::int) - 1900) mod 100 = y mod 100"
proof -
  have "y - 1900 = y + 100 * (- 19)" by simp
  then show ?thesis by (simp only: mod_mult_self2)
qed

lemma mod400_shift: "((y::int) - 1600) mod 400 = y mod 400"
proof -
  have "y - 1600 = y + 400 * (- 4)" by simp
  then show ?thesis by (simp only: mod_mult_self2)
qed

lemma mod400_100: "(y::int) mod 400 = 0 \<Longrightarrow> y mod 100 = 0"
proof -
  assume "y mod 400 = 0"
  then have "400 dvd y" by (simp add: mod_eq_0_iff_dvd)
  moreover have "(100::int) dvd 400" by simp
  ultimately have "100 dvd y" by (rule dvd_trans [rotated])
  then show ?thesis by (simp add: mod_eq_0_iff_dvd)
qed

lemma mod100_4: "(y::int) mod 100 = 0 \<Longrightarrow> y mod 4 = 0"
proof -
  assume "y mod 100 = 0"
  then have "100 dvd y" by (simp add: mod_eq_0_iff_dvd)
  moreover have "(4::int) dvd 100" by simp
  ultimately have "4 dvd y" by (rule dvd_trans [rotated])
  then show ?thesis by (simp add: mod_eq_0_iff_dvd)
qed

lemma DayFromYear_Suc: "DayFromYear (y + 1) = DayFromYear y + DaysInYear y"
proof -
  have a: "(y + 1 - 1969) div 4 = (y - 1969) div 4 + (if y mod 4 = 0 then 1 else 0)"
    using div_step [of 4 "y - 1969"] mod4_shift [of y] by (simp add: algebra_simps)
  have b: "(y + 1 - 1901) div 100 = (y - 1901) div 100 + (if y mod 100 = 0 then 1 else 0)"
    using div_step [of 100 "y - 1901"] mod100_shift [of y] by (simp add: algebra_simps)
  have c: "(y + 1 - 1601) div 400 = (y - 1601) div 400 + (if y mod 400 = 0 then 1 else 0)"
    using div_step [of 400 "y - 1601"] mod400_shift [of y] by (simp add: algebra_simps)
  show ?thesis
    unfolding DayFromYear_def DaysInYear_def a b c
    using mod400_100 [of y] mod100_4 [of y] by auto
qed

lemma DaysInYear_bounds: "365 \<le> DaysInYear y" "DaysInYear y \<le> 366"
  unfolding DaysInYear_def by auto

text \<open>
  YearFromTime is "the largest year whose first day is not after the day": found by a
  search downwards and then upwards from an estimate.
\<close>

function year_down :: "int \<Rightarrow> int \<Rightarrow> int" where
  "year_down n y = (if n < DayFromYear y then year_down n (y - 1) else y)"
  by pat_completeness auto

termination
proof (relation "measure (\<lambda>(n, y). nat (DayFromYear y - n))")
  show "wf (measure (\<lambda>(n, y). nat (DayFromYear y - n)))" by simp
next
  fix n y :: int
  assume "n < DayFromYear y"
  moreover have "DayFromYear y = DayFromYear (y - 1) + DaysInYear (y - 1)"
    using DayFromYear_Suc [of "y - 1"] by simp
  ultimately show "((n, y - 1), (n, y)) \<in> measure (\<lambda>(n, y). nat (DayFromYear y - n))"
    using DaysInYear_bounds(1) [of "y - 1"] by simp
qed

function year_up :: "int \<Rightarrow> int \<Rightarrow> int" where
  "year_up n y = (if DayFromYear (y + 1) \<le> n then year_up n (y + 1) else y)"
  by pat_completeness auto

termination
proof (relation "measure (\<lambda>(n, y). nat (n + 1 - DayFromYear (y + 1)))")
  show "wf (measure (\<lambda>(n, y). nat (n + 1 - DayFromYear (y + 1))))" by simp
next
  fix n y :: int
  assume "DayFromYear (y + 1) \<le> n"
  then show "((n, y + 1), (n, y)) \<in> measure (\<lambda>(n, y). nat (n + 1 - DayFromYear (y + 1)))"
    using DayFromYear_Suc [of "y + 1"] DaysInYear_bounds(1) [of "y + 1"] by simp
qed

declare year_down.simps [simp del] year_up.simps [simp del]

definition YearFromDay :: "int \<Rightarrow> int" where
  "YearFromDay n = year_up n (year_down n (1970 + n div 365))"

definition YearFromTime :: "int \<Rightarrow> int" where
  "YearFromTime t = YearFromDay (Day t)"

text \<open>
  \<open>InLeapYear\<close> (1 in a leap year, else 0) is taken of the year; \<open>monthStart L m\<close> is the day
  within the year on which month \<open>m\<close> (0 to 11) starts and \<open>monthOfDay L d\<close> the month of the
  day \<open>d\<close> within the year, as in the tables of MonthFromTime and DateFromTime.
\<close>

definition InLeapYear :: "int \<Rightarrow> int" where
  "InLeapYear y = (if DaysInYear y = 366 then 1 else 0)"

definition DayWithinYear :: "int \<Rightarrow> int" where
  "DayWithinYear t = Day t - DayFromYear (YearFromTime t)"

definition monthStart :: "int \<Rightarrow> int \<Rightarrow> int" where
  "monthStart L m =
     (if m = 0 then 0 else if m = 1 then 31 else if m = 2 then 59 + L
      else if m = 3 then 90 + L else if m = 4 then 120 + L else if m = 5 then 151 + L
      else if m = 6 then 181 + L else if m = 7 then 212 + L else if m = 8 then 243 + L
      else if m = 9 then 273 + L else if m = 10 then 304 + L else if m = 11 then 334 + L
      else 365 + L)"

definition monthOfDay :: "int \<Rightarrow> int \<Rightarrow> int" where
  "monthOfDay L d =
     (if d < 31 then 0 else if d < 59 + L then 1 else if d < 90 + L then 2
      else if d < 120 + L then 3 else if d < 151 + L then 4 else if d < 181 + L then 5
      else if d < 212 + L then 6 else if d < 243 + L then 7 else if d < 273 + L then 8
      else if d < 304 + L then 9 else if d < 334 + L then 10 else 11)"

definition MonthFromTime :: "int \<Rightarrow> int" where
  "MonthFromTime t = monthOfDay (InLeapYear (YearFromTime t)) (DayWithinYear t)"

definition DateFromTime :: "int \<Rightarrow> int" where
  "DateFromTime t =
     DayWithinYear t - monthStart (InLeapYear (YearFromTime t)) (MonthFromTime t) + 1"

text \<open>
  \<open>MakeDay\<close> takes any month and any date: months beyond 0 to 11 carry into the year, and
  the date counts on from the first day of the month, past its end if need be.
\<close>

definition MakeDay :: "int \<Rightarrow> int \<Rightarrow> int \<Rightarrow> int" where
  "MakeDay year month date =
     (let ym = year + month div 12; mn = month mod 12
      in DayFromYear ym + monthStart (InLeapYear ym) mn + date - 1)"

definition MakeDate :: "int \<Rightarrow> int \<Rightarrow> int" where
  "MakeDate day time = day * msPerDay + time"

text \<open>The length of month \<open>m\<close> (0 to 11) of year \<open>y\<close>.\<close>

definition DaysInMonth :: "int \<Rightarrow> int \<Rightarrow> int" where
  "DaysInMonth y m = monthStart (InLeapYear y) (m + 1) - monthStart (InLeapYear y) m"

subsection \<open>Date values, the range of dates and the time zone\<close>

text \<open>
  What a \<^verbatim>\<open>Date\<close> object holds: a time value, or NaN (the invalid date). A date string
  of the store is identified with the date \<^verbatim>\<open>new Date(string)\<close> makes of it: a string that
  does not parse is \<open>InvalidDate\<close>.
\<close>

datatype dateValue = InvalidDate | TimeValue int

definition maxTime :: int where
  "maxTime = 8640000000000000"

definition TimeClip :: "int \<Rightarrow> dateValue" where
  "TimeClip t = (if \<bar>t\<bar> > maxTime then InvalidDate else TimeValue t)"

text \<open>\<^verbatim>\<open>new Date(string)\<close>: no string denotes a time beyond the range.\<close>

definition newDate :: "dateValue \<Rightarrow> dateValue" where
  "newDate s = (case s of InvalidDate \<Rightarrow> InvalidDate | TimeValue t \<Rightarrow> TimeClip t)"

text \<open>
  The local time zone: \<open>tzaOfUTC z t\<close> is LocalTZA(t, true), the offset of local time in
  force at the UTC time \<open>t\<close>; \<open>tzaOfLocal z t\<close> is LocalTZA(t, false), the offset by which the
  local time \<open>t\<close> is read. In a zone without daylight saving both are one constant.
\<close>

record zone =
  tzaOfUTC :: "int \<Rightarrow> int"
  tzaOfLocal :: "int \<Rightarrow> int"

definition LocalTime :: "zone \<Rightarrow> int \<Rightarrow> int" where
  "LocalTime z t = t + tzaOfUTC z t"

definition UTC :: "zone \<Rightarrow> int \<Rightarrow> int" where
  "UTC z t = t - tzaOfLocal z t"

definition fixedZone :: "int \<Rightarrow> zone" where
  "fixedZone offset = \<lparr>tzaOfUTC = (\<lambda>t. offset), tzaOfLocal = (\<lambda>t. offset)\<rparr>"

text \<open>The methods of a valid date with time value \<open>t\<close>; the getters and setters are local.\<close>

definition getFullYear :: "zone \<Rightarrow> int \<Rightarrow> int" where
  "getFullYear z t = YearFromTime (LocalTime z t)"

definition getMonth :: "zone \<Rightarrow> int \<Rightarrow> int" where
  "getMonth z t = MonthFromTime (LocalTime z t)"

definition getDate :: "zone \<Rightarrow> int \<Rightarrow> int" where
  "getDate z t = DateFromTime (LocalTime z t)"

definition setMonth :: "zone \<Rightarrow> int \<Rightarrow> int \<Rightarrow> dateValue" where
  "setMonth z t month =
     (let local = LocalTime z t;
          newTime = MakeDate (MakeDay (YearFromTime local) month (DateFromTime local))
                      (TimeWithinDay local)
      in TimeClip (UTC z newTime))"

definition setFullYear :: "zone \<Rightarrow> int \<Rightarrow> int \<Rightarrow> dateValue" where
  "setFullYear z t year =
     (let local = LocalTime z t;
          newTime = MakeDate (MakeDay year (MonthFromTime local) (DateFromTime local))
                      (TimeWithinDay local)
      in TimeClip (UTC z newTime))"

text \<open>
  \<^verbatim>\<open>date.toISOString().slice(0, 7)\<close> of a valid date. For the years 0 to 9999 it is the string
  \<open>YYYY-MM\<close> of the UTC year and month, kept as the pair of the year and the month (1 to
  12). For the other years \<^verbatim>\<open>toISOString\<close> writes a sign and six digits, so that the first
  seven characters are the year alone: the pair of the year and 0.
\<close>

type_synonym monthKey = "int \<times> int"

definition monthKey :: "int \<Rightarrow> monthKey" where
  "monthKey t =
     (if 0 \<le> YearFromTime t \<and> YearFromTime t \<le> 9999
      then (YearFromTime t, MonthFromTime t + 1)
      else (YearFromTime t, 0))"

section \<open>JavaScript numbers and objects\<close>

text \<open>
  The numbers of the source are doubles. Their type and their operations are parameters:
  whatever is proved holds for the arithmetic of doubles (with its rounding, NaN and
  infinities) as for any other. \<open>n_lit\<close> is an integer literal, \<open>n_nan\<close> is NaN, \<open>n_truthy\<close>
  the conversion to a boolean (false for 0 and NaN), \<open>n_eq\<close> is \<^verbatim>\<open>===\<close>, the others are the
  operators and the functions of \<^verbatim>\<open>Math\<close>. A property that holds a number and is absent
  is the number NaN wherever the source only calculates with it.
\<close>

record 'n arith =
  n_lit :: "int \<Rightarrow> 'n"
  n_nan :: 'n
  n_add :: "'n \<Rightarrow> 'n \<Rightarrow> 'n"
  n_sub :: "'n \<Rightarrow> 'n \<Rightarrow> 'n"
  n_mul :: "'n \<Rightarrow> 'n \<Rightarrow> 'n"
  n_div :: "'n \<Rightarrow> 'n \<Rightarrow> 'n"
  n_gt :: "'n \<Rightarrow> 'n \<Rightarrow> bool"
  n_lt :: "'n \<Rightarrow> 'n \<Rightarrow> bool"
  n_eq :: "'n \<Rightarrow> 'n \<Rightarrow> bool"
  n_truthy :: "'n \<Rightarrow> bool"
  n_max :: "'n \<Rightarrow> 'n \<Rightarrow> 'n"
  n_min :: "'n \<Rightarrow> 'n \<Rightarrow> 'n"
  n_round :: "'n \<Rightarrow> 'n"
  n_abs :: "'n \<Rightarrow> 'n"

text \<open>
  The exact arithmetic of the rationals, with \<^verbatim>\<open>Math.round\<close> rounding a half up. It has
  no NaN: 0 stands in for it.
\<close>

definition exactArith :: "rat arith" where
  "exactArith =
     \<lparr>n_lit = of_int, n_nan = 0, n_add = (+), n_sub = (-), n_mul = (*), n_div = (/),
      n_gt = (\<lambda>a b. a > b), n_lt = (\<lambda>a b. a < b), n_eq = (=), n_truthy = (\<lambda>a. a \<noteq> 0),
      n_max = max, n_min = min, n_round = (\<lambda>a. of_int \<lfloor>a + 1 / 2\<rfloor>), n_abs = abs\<rparr>"

text \<open>\<^verbatim>\<open>x || 0\<close> on a number.\<close>

definition orZero :: "'n arith \<Rightarrow> 'n \<Rightarrow> 'n" where
  "orZero ops x = (if n_truthy ops x then x else n_lit ops 0)"

text \<open>
  The value of a property of an object that the source uses as a dictionary of numbers:
  a number, or something that is no number and converts to NaN. The latter is what a
  plain object inherits from \<^verbatim>\<open>Object.prototype\<close> (functions, and the prototype itself
  under \<^verbatim>\<open>__proto__\<close>), and the string that \<^verbatim>\<open>+\<close> makes of such a value and a number.
\<close>

datatype 'n jsval = Num 'n | NotNumber

definition inheritedKey :: "string \<Rightarrow> bool" where
  "inheritedKey k \<longleftrightarrow>
     k \<in> set [''constructor'', ''__proto__'', ''hasOwnProperty'', ''isPrototypeOf'',
               ''propertyIsEnumerable'', ''toLocaleString'', ''toString'', ''valueOf'',
               ''__defineGetter__'', ''__defineSetter__'', ''__lookupGetter__'',
               ''__lookupSetter__'']"

text \<open>
  An object created by \<^verbatim>\<open>{}\<close> is the list of its own properties in the order of their
  creation. \<^verbatim>\<open>obj[k]\<close> finds the own property, else the inherited one, else it is
  \<^verbatim>\<open>undefined\<close> (\<^term>\<open>None\<close>); \<^verbatim>\<open>obj[k] = v\<close> with a number or a string \<open>v\<close> creates or
  overwrites the own property, except under \<^verbatim>\<open>__proto__\<close>, where the assignment of a value
  that is no object does nothing.
\<close>

definition getProp :: "(string \<times> 'n jsval) list \<Rightarrow> string \<Rightarrow> 'n jsval option" where
  "getProp obj k =
     (case map_of obj k of
        Some v \<Rightarrow> Some v
      | None \<Rightarrow> if inheritedKey k then Some NotNumber else None)"

definition setProp ::
  "string \<Rightarrow> 'n jsval \<Rightarrow> (string \<times> 'n jsval) list \<Rightarrow> (string \<times> 'n jsval) list" where
  "setProp k v obj = (if k = ''__proto__'' then obj else AList.update k v obj)"

text \<open>
  \<^verbatim>\<open>(x || 0) + v\<close> for a property value \<open>x\<close> and a number \<open>v\<close>: an absent or falsy \<open>x\<close> counts
  as 0; a function, an object or a string is truthy, and \<^verbatim>\<open>+\<close> makes a string of it and
  \<open>v\<close>. \<^verbatim>\<open>x + y\<close> for two property values is the sum of two numbers and a string otherwise;
  \<^verbatim>\<open>x > 0\<close> is false for what converts to NaN.
\<close>

definition orZeroPlus :: "'n arith \<Rightarrow> 'n jsval option \<Rightarrow> 'n \<Rightarrow> 'n jsval" where
  "orZeroPlus ops x v =
     (case x of
        None \<Rightarrow> Num (n_add ops (n_lit ops 0) v)
      | Some (Num a) \<Rightarrow> Num (n_add ops (orZero ops a) v)
      | Some NotNumber \<Rightarrow> NotNumber)"

definition plusVal :: "'n arith \<Rightarrow> 'n jsval \<Rightarrow> 'n jsval \<Rightarrow> 'n jsval" where
  "plusVal ops x y =
     (case x of
        Num a \<Rightarrow> (case y of Num b \<Rightarrow> Num (n_add ops a b) | NotNumber \<Rightarrow> NotNumber)
      | NotNumber \<Rightarrow> NotNumber)"

definition toNumber :: "'n arith \<Rightarrow> 'n jsval \<Rightarrow> 'n" where
  "toNumber ops x = (case x of Num a \<Rightarrow> a | NotNumber \<Rightarrow> n_nan ops)"

definition gtZero :: "'n arith \<Rightarrow> 'n jsval \<Rightarrow> bool" where
  "gtZero ops x = (case x of Num a \<Rightarrow> n_gt ops a (n_lit ops 0) | NotNumber \<Rightarrow> False)"

text \<open>
  \<^verbatim>\<open>Object.keys\<close>, \<^verbatim>\<open>Object.values\<close> and \<^verbatim>\<open>Object.entries\<close> list the own properties whose
  keys are array indices (the decimal numerals of 0 to 2^32 - 2) first, in ascending
  order, and then the others in the order of their creation.
\<close>

definition isDigit :: "char \<Rightarrow> bool" where
  "isDigit c \<longleftrightarrow> 48 \<le> (of_char c :: nat) \<and> (of_char c :: nat) \<le> 57"

definition digitValue :: "char \<Rightarrow> int" where
  "digitValue c = int (of_char c) - 48"

definition digitsValue :: "string \<Rightarrow> int" where
  "digitsValue s = foldl (\<lambda>a c. 10 * a + digitValue c) 0 s"

definition isArrayIndex :: "string \<Rightarrow> bool" where
  "isArrayIndex s \<longleftrightarrow>
     s \<noteq> [] \<and> list_all isDigit s \<and> (s = ''0'' \<or> hd s \<noteq> CHR ''0'') \<and>
     digitsValue s \<le> 4294967294"

definition objectEntries :: "(string \<times> 'v) list \<Rightarrow> (string \<times> 'v) list" where
  "objectEntries obj =
     sort_key (\<lambda>p. digitsValue (fst p)) (filter (\<lambda>p. isArrayIndex (fst p)) obj) @
     filter (\<lambda>p. \<not> isArrayIndex (fst p)) obj"

text \<open>
  \<^verbatim>\<open>Array.prototype.sort(compare)\<close> as the stable insertion sort, where \<open>after x y\<close> stands
  for \<^verbatim>\<open>compare(x, y) > 0\<close>: an element \<open>x\<close> that stood before \<open>y\<close> ends behind it only when
  \<open>after x y\<close>. (For a comparison that is no consistent order the engines differ in the
  order of the result, not in its elements.)
\<close>

fun insertBy :: "('a \<Rightarrow> 'a \<Rightarrow> bool) \<Rightarrow> 'a \<Rightarrow> 'a list \<Rightarrow> 'a list" where
  "insertBy after x [] = [x]"
| "insertBy after x (y # ys) = (if after x y then y # insertBy after x ys else x # y # ys)"

definition sortBy :: "('a \<Rightarrow> 'a \<Rightarrow> bool) \<Rightarrow> 'a list \<Rightarrow> 'a list" where
  "sortBy after xs = foldr (insertBy after) xs []"

section \<open>The subscription store (dataManager.js)\<close>

text \<open>
  A field that the source leaves \<^verbatim>\<open>undefined\<close> (or that holds an empty, falsy date string)
  is \<^term>\<open>None\<close>. The record has the properties that \<^verbatim>\<open>addSubscription\<close> and the lifecycle
  operations write; \<open>id_sub\<close> is the source's \<^verbatim>\<open>id\<close> and \<open>notes_sub\<close> its \<^verbatim>\<open>notes\<close>. The time
  stamps \<open>createdAt\<close> and \<open>updatedAt\<close> are readings of the clock.
\<close>

record 'n subscription =
  id_sub :: string
  name :: string
  price :: 'n
  category :: string
  billingCycle :: string
  startDate :: dateValue
  nextPaymentDate :: "dateValue option"
  isActive :: bool
  createdAt :: int
  updatedAt :: int
  notes_sub :: string
  website :: string
  trialPeriod :: 'n
  pausedAt :: "dateValue option"
  skippedPayments :: "'n option"

text \<open>The argument of \<^verbatim>\<open>addSubscription\<close>: every property may be absent.\<close>

record 'n subscriptionData =
  d_name :: "string option"
  d_price :: "'n option"
  d_category :: "string option"
  d_billingCycle :: "string option"
  d_startDate :: "dateValue option"
  d_nextPaymentDate :: "dateValue option"
  d_isActive :: "bool option"
  d_notes :: "string option"
  d_website :: "string option"
  d_trialPeriod :: "'n option"

text \<open>
  The \<^verbatim>\<open>updates\<close> object of \<^verbatim>\<open>updateSubscription\<close>: the properties it carries override
  those of the stored record (\<^verbatim>\<open>{...old, ...updates}\<close>).
\<close>

record 'n updates =
  u_id :: "string option"
  u_name :: "string option"
  u_price :: "'n option"
  u_category :: "string option"
  u_billingCycle :: "string option"
  u_startDate :: "dateValue option"
  u_nextPaymentDate :: "dateValue option option"
  u_isActive :: "bool option"
  u_createdAt :: "int option"
  u_notes :: "string option"
  u_website :: "string option"
  u_trialPeriod :: "'n option"
  u_pausedAt :: "dateValue option option"
  u_skippedPayments :: "'n option option"

definition noUpdates :: "'n updates" where
  "noUpdates =
     \<lparr>u_id = None, u_name = None, u_price = None, u_category = None, u_billingCycle = None,
      u_startDate = None, u_nextPaymentDate = None, u_isActive = None, u_createdAt = None,
      u_notes = None, u_website = None, u_trialPeriod = None, u_pausedAt = None,
      u_skippedPayments = None\<rparr>"

text \<open>The fields of the \<^verbatim>\<open>DataManager\<close> instance that the operations below touch.\<close>

record 'n dataManager =
  subscriptions :: "'n subscription list"
  categories :: "string list"

text \<open>
  What an operation takes from outside: the clock (\<^verbatim>\<open>Date.now()\<close>, \<^verbatim>\<open>new Date()\<close>; one
  reading per operation, a valid time value), the identifier \<^verbatim>\<open>generateId()\<close> returns,
  whether \<^verbatim>\<open>chrome.storage.local.set\<close> resolves, the local time zone and the arithmetic of
  numbers.
\<close>

record 'n env =
  clock :: int
  freshId :: string
  storageOk :: bool
  timeZone :: zone
  arith :: "'n arith"

text \<open>
  A failure of the source is an exception; the constructors stand for the messages:
  \<^item> \<open>InvalidSubscriptionData\<close>: Error "Invalid subscription data: must be an object",
  \<^item> \<open>NameRequired\<close>: Error "Subscription name is required",
  \<^item> \<open>InvalidId\<close>: Error "Invalid subscription ID: must be a string",
  \<^item> \<open>InvalidUpdates\<close>: Error "Invalid updates: must be an object",
  \<^item> \<open>NotFound id\<close>: Error "Subscription with ID id not found",
  \<^item> \<open>StorageFailure\<close>: the error of the storage call, rethrown by \<^verbatim>\<open>saveAllData\<close>,
  \<^item> \<open>InvalidTimeValue\<close>: the RangeError "Invalid time value" of \<^verbatim>\<open>toISOString\<close> on an
    invalid date.
\<close>

datatype error =
    InvalidSubscriptionData
  | NameRequired
  | InvalidId
  | InvalidUpdates
  | NotFound string
  | StorageFailure
  | InvalidTimeValue

text \<open>
  The two kinds of error a caller is to tell apart: the errors about malformed input, and
  the error about an identifier that the store does not have.
\<close>

fun isValidationError :: "error \<Rightarrow> bool" where
  "isValidationError InvalidSubscriptionData = True"
| "isValidationError NameRequired = True"
| "isValidationError InvalidId = True"
| "isValidationError InvalidUpdates = True"
| "isValidationError (NotFound i) = False"
| "isValidationError StorageFailure = False"
| "isValidationError InvalidTimeValue = False"

fun isNotFound :: "error \<Rightarrow> bool" where
  "isNotFound (NotFound i) = True"
| "isNotFound e = False"

text \<open>
  \<^verbatim>\<open>date.toISOString()\<close>: the string of a valid date, which is identified with its time
  value (\<^verbatim>\<open>new Date\<close> reads that time value back from it); a RangeError for the invalid
  date.
\<close>

definition toISOString :: "dateValue \<Rightarrow> error + int" where
  "toISOString d = (case d of InvalidDate \<Rightarrow> Inl InvalidTimeValue | TimeValue t \<Rightarrow> Inr t)"

text \<open>\<^verbatim>\<open>Array.prototype.findIndex\<close>; \<^term>\<open>None\<close> is the source's \<^verbatim>\<open>-1\<close>.\<close>

fun findIndex :: "('a \<Rightarrow> bool) \<Rightarrow> 'a list \<Rightarrow> nat option" where
  "findIndex P [] = None"
| "findIndex P (x # xs) =
     (if P x then Some 0 else map_option Suc (findIndex P xs))"

text \<open>\<^verbatim>\<open>xs.splice(index, 1)\<close>.\<close>

definition splice1 :: "nat \<Rightarrow> 'a list \<Rightarrow> 'a list" where
  "splice1 index xs = take index xs @ drop (Suc index) xs"

text \<open>
  \<^verbatim>\<open>String.prototype.trim\<close>. A string is a list of code units below 256; of those, the
  white space and the line terminators of the language are these seven.
\<close>

definition isWhiteSpace :: "char \<Rightarrow> bool" where
  "isWhiteSpace c \<longleftrightarrow>
     c \<in> set [CHR 0x20, CHR 0x09, CHR 0x0A, CHR 0x0B, CHR 0x0C, CHR 0x0D, CHR 0xA0]"

definition trim :: "string \<Rightarrow> string" where
  "trim s = rev (dropWhile isWhiteSpace (rev (dropWhile isWhiteSpace s)))"

text \<open>\<^verbatim>\<open>x || d\<close> on a string that may be absent: absent and empty are both falsy.\<close>

definition orElse :: "string option \<Rightarrow> string \<Rightarrow> string" where
  "orElse x d = (case x of None \<Rightarrow> d | Some v \<Rightarrow> if v = [] then d else v)"

definition saveAllData :: "'n env \<Rightarrow> 'a \<Rightarrow> error + 'a" where
  "saveAllData e r = (if storageOk e then Inr r else Inl StorageFailure)"

text \<open>
  \<^verbatim>\<open>addSubscription\<close>. The price is \<^verbatim>\<open>price ? parseFloat(price) : 0\<close>, which for a number is
  \<^verbatim>\<open>price || 0\<close>.
\<close>

definition addSubscription ::
  "'n env \<Rightarrow> 'n subscriptionData option \<Rightarrow> 'n dataManager \<Rightarrow>
   (error + 'n subscription) \<times> 'n dataManager" where
  "addSubscription e subscriptionData dm =
     (case subscriptionData of
        None \<Rightarrow> (Inl InvalidSubscriptionData, dm)
      | Some d \<Rightarrow>
          let subscription =
            \<lparr>id_sub = freshId e,
             name = (case d_name d of None \<Rightarrow> [] | Some n \<Rightarrow> if n = [] then [] else trim n),
             price = (case d_price d of None \<Rightarrow> n_lit (arith e) 0 | Some p \<Rightarrow> orZero (arith e) p),
             category = orElse (d_category d) ''other'',
             billingCycle = orElse (d_billingCycle d) ''monthly'',
             startDate = (case d_startDate d of None \<Rightarrow> TimeValue (clock e) | Some t \<Rightarrow> t),
             nextPaymentDate = d_nextPaymentDate d,
             isActive = (case d_isActive d of None \<Rightarrow> True | Some b \<Rightarrow> b),
             createdAt = clock e,
             updatedAt = clock e,
             notes_sub = orElse (d_notes d) [],
             website = orElse (d_website d) [],
             trialPeriod =
               (case d_trialPeriod d of None \<Rightarrow> n_lit (arith e) 0 | Some p \<Rightarrow> orZero (arith e) p),
             pausedAt = None,
             skippedPayments = None\<rparr>
          in if name subscription = [] then (Inl NameRequired, dm)
             else (saveAllData e subscription,
                   dm\<lparr>subscriptions := subscriptions dm @ [subscription]\<rparr>))"

text \<open>\<^verbatim>\<open>{...old, ...updates, updatedAt: now}\<close>.\<close>

definition applyUpdates :: "'n subscription \<Rightarrow> 'n updates \<Rightarrow> int \<Rightarrow> 'n subscription" where
  "applyUpdates old u now =
     \<lparr>id_sub = (case u_id u of None \<Rightarrow> id_sub old | Some v \<Rightarrow> v),
      name = (case u_name u of None \<Rightarrow> name old | Some v \<Rightarrow> v),
      price = (case u_price u of None \<Rightarrow> price old | Some v \<Rightarrow> v),
      category = (case u_category u of None \<Rightarrow> category old | Some v \<Rightarrow> v),
      billingCycle = (case u_billingCycle u of None \<Rightarrow> billingCycle old | Some v \<Rightarrow> v),
      startDate = (case u_startDate u of None \<Rightarrow> startDate old | Some v \<Rightarrow> v),
      nextPaymentDate =
        (case u_nextPaymentDate u of None \<Rightarrow> nextPaymentDate old | Some v \<Rightarrow> v),
      isActive = (case u_isActive u of None \<Rightarrow> isActive old | Some v \<Rightarrow> v),
      createdAt = (case u_createdAt u of None \<Rightarrow> createdAt old | Some v \<Rightarrow> v),
      updatedAt = now,
      notes_sub = (case u_notes u of None \<Rightarrow> notes_sub old | Some v \<Rightarrow> v),
      website = (case u_website u of None \<Rightarrow> website old | Some v \<Rightarrow> v),
      trialPeriod = (case u_trialPeriod u of None \<Rightarrow> trialPeriod old | Some v \<Rightarrow> v),
      pausedAt = (case u_pausedAt u of None \<Rightarrow> pausedAt old | Some v \<Rightarrow> v),
      skippedPayments =
        (case u_skippedPayments u of None \<Rightarrow> skippedPayments old | Some v \<Rightarrow> v)\<rparr>"

text \<open>
  \<^verbatim>\<open>updateSubscription(id, updates)\<close>. The identifier is a string, so of
  \<^verbatim>\<open>!id || typeof id !== 'string'\<close> only the empty string is left; \<^term>\<open>None\<close> for the
  updates is a value that is not an object.
\<close>

definition updateSubscription ::
  "'n env \<Rightarrow> string \<Rightarrow> 'n updates option \<Rightarrow> 'n dataManager \<Rightarrow>
   (error + 'n subscription) \<times> 'n dataManager" where
  "updateSubscription e i upd dm =
     (if i = [] then (Inl InvalidId, dm)
      else case upd of
        None \<Rightarrow> (Inl InvalidUpdates, dm)
      | Some u \<Rightarrow>
          (case findIndex (\<lambda>sub. id_sub sub = i) (subscriptions dm) of
             Some index \<Rightarrow>
               let updatedSubscription = applyUpdates (subscriptions dm ! index) u (clock e)
               in if name updatedSubscription = [] then (Inl NameRequired, dm)
                  else (saveAllData e updatedSubscription,
                        dm\<lparr>subscriptions := (subscriptions dm)[index := updatedSubscription]\<rparr>)
           | None \<Rightarrow> (Inl (NotFound i), dm)))"

definition deleteSubscription ::
  "'n env \<Rightarrow> string \<Rightarrow> 'n dataManager \<Rightarrow> (error + bool) \<times> 'n dataManager" where
  "deleteSubscription e i dm =
     (if i = [] then (Inl InvalidId, dm)
      else case findIndex (\<lambda>sub. id_sub sub = i) (subscriptions dm) of
        Some index \<Rightarrow>
          (saveAllData e True, dm\<lparr>subscriptions := splice1 index (subscriptions dm)\<rparr>)
      | None \<Rightarrow> (Inl (NotFound i), dm))"

text \<open>What the lifecycle operations return: the updated record, or \<^verbatim>\<open>null\<close>.\<close>

definition returned ::
  "(error + 'n subscription) \<times> 'n dataManager \<Rightarrow>
   (error + 'n subscription option) \<times> 'n dataManager" where
  "returned r = (map_sum (\<lambda>x. x) Some (fst r), snd r)"

definition pauseSubscription ::
  "'n env \<Rightarrow> string \<Rightarrow> 'n dataManager \<Rightarrow> (error + 'n subscription option) \<times> 'n dataManager" where
  "pauseSubscription e i dm =
     (case find (\<lambda>sub. id_sub sub = i) (subscriptions dm) of
        Some subscription \<Rightarrow>
          if isActive subscription
          then returned (updateSubscription e i
                 (Some (noUpdates\<lparr>u_isActive := Some False,
                                   u_pausedAt := Some (Some (TimeValue (clock e)))\<rparr>)) dm)
          else (Inr None, dm)
      | None \<Rightarrow> (Inr None, dm))"

text \<open>
  \<^verbatim>\<open>resumeSubscription\<close>. \<open>daysPaused\<close> is NaN when the pause date is invalid, and NaN is
  not above 0. The shifted date is \<^verbatim>\<open>new Date(nextPaymentDate.getTime() + daysPaused * 24 *
  60 * 60 * 1000).toISOString()\<close>, which throws when the date is invalid or leaves the
  range; the exception leaves the function before anything is updated. (The quotient
  that \<^verbatim>\<open>Math.floor\<close> takes is a double; its floor is the integer quotient as long as the
  clock is less than 2^53 ms past the pause date.)
\<close>

definition shiftDate :: "dateValue \<Rightarrow> int \<Rightarrow> dateValue" where
  "shiftDate d ms = (case d of InvalidDate \<Rightarrow> InvalidDate | TimeValue t \<Rightarrow> TimeClip (t + ms))"

definition resumeSubscription ::
  "'n env \<Rightarrow> string \<Rightarrow> 'n dataManager \<Rightarrow> (error + 'n subscription option) \<times> 'n dataManager" where
  "resumeSubscription e i dm =
     (case find (\<lambda>sub. id_sub sub = i) (subscriptions dm) of
        Some subscription \<Rightarrow>
          if \<not> isActive subscription
          then
            let updates0 = noUpdates\<lparr>u_isActive := Some True\<rparr>
            in case (pausedAt subscription, nextPaymentDate subscription) of
                 (Some pausedString, Some nextString) \<Rightarrow>
                   (case newDate pausedString of
                      InvalidDate \<Rightarrow> returned (updateSubscription e i (Some updates0) dm)
                    | TimeValue paused \<Rightarrow>
                        let daysPaused = (clock e - paused) div (1000 * 60 * 60 * 24)
                        in if daysPaused > 0
                           then
                             (case toISOString
                                     (shiftDate (newDate nextString)
                                        (daysPaused * 24 * 60 * 60 * 1000)) of
                                Inl err \<Rightarrow> (Inl err, dm)
                              | Inr newNextPayment \<Rightarrow>
                                  returned (updateSubscription e i
                                    (Some (updates0\<lparr>u_nextPaymentDate :=
                                             Some (Some (TimeValue newNextPayment))\<rparr>)) dm))
                           else returned (updateSubscription e i (Some updates0) dm))
               | _ \<Rightarrow> returned (updateSubscription e i (Some updates0) dm)
          else (Inr None, dm)
      | None \<Rightarrow> (Inr None, dm))"

text \<open>
  The \<^verbatim>\<open>switch\<close> on the billing cycle in \<^verbatim>\<open>skipNextPayment\<close>, on the date
  \<^verbatim>\<open>new Date(subscription.nextPaymentDate)\<close>; the setters of an invalid date give NaN.
\<close>

definition newNextPayment :: "zone \<Rightarrow> string \<Rightarrow> dateValue \<Rightarrow> dateValue" where
  "newNextPayment z cycle nextPayment =
     (case nextPayment of
        InvalidDate \<Rightarrow> InvalidDate
      | TimeValue t \<Rightarrow>
          if cycle = ''monthly'' then setMonth z t (getMonth z t + 1)
          else if cycle = ''quarterly'' then setMonth z t (getMonth z t + 3)
          else if cycle = ''yearly'' then setFullYear z t (getFullYear z t + 1)
          else setMonth z t (getMonth z t + 1))"

text \<open>
  \<^verbatim>\<open>skipNextPayment\<close>. \<^verbatim>\<open>newNextPayment.toISOString()\<close> throws on an invalid date, before
  anything is updated; the counter is \<^verbatim>\<open>(subscription.skippedPayments || 0) + 1\<close>.
\<close>

definition skipNextPayment ::
  "'n env \<Rightarrow> string \<Rightarrow> 'n dataManager \<Rightarrow> (error + 'n subscription option) \<times> 'n dataManager" where
  "skipNextPayment e i dm =
     (case find (\<lambda>sub. id_sub sub = i) (subscriptions dm) of
        Some subscription \<Rightarrow>
          (case nextPaymentDate subscription of
             Some nextString \<Rightarrow>
               if isActive subscription
               then
                 (case toISOString
                         (newNextPayment (timeZone e) (billingCycle subscription)
                            (newDate nextString)) of
                    Inl err \<Rightarrow> (Inl err, dm)
                  | Inr newString \<Rightarrow>
                      returned (updateSubscription e i
                        (Some (noUpdates\<lparr>
                           u_nextPaymentDate := Some (Some (TimeValue newString)),
                           u_skippedPayments :=
                             Some (Some (n_add (arith e)
                               (case skippedPayments subscription of
                                  None \<Rightarrow> n_lit (arith e) 0
                                | Some n \<Rightarrow> orZero (arith e) n)
                               (n_lit (arith e) 1)))\<rparr>)) dm))
               else (Inr None, dm)
           | None \<Rightarrow> (Inr None, dm))
      | None \<Rightarrow> (Inr None, dm))"

definition removeCategory ::
  "'n env \<Rightarrow> string \<Rightarrow> 'n dataManager \<Rightarrow> (error + unit) \<times> 'n dataManager" where
  "removeCategory e categoryName dm =
     (case findIndex (\<lambda>c. c = categoryName) (categories dm) of
        Some index \<Rightarrow>
          if length (categories dm) > 1
          then (saveAllData e (),
                dm\<lparr>categories := splice1 index (categories dm),
                   subscriptions :=
                     map (\<lambda>sub. if category sub = categoryName
                                 then sub\<lparr>category := ''other''\<rparr> else sub)
                       (subscriptions dm)\<rparr>)
          else (Inr (), dm)
      | None \<Rightarrow> (Inr (), dm))"

definition calculateMonthlyRate :: "'n arith \<Rightarrow> 'n subscription \<Rightarrow> 'n" where
  "calculateMonthlyRate ops subscription =
     (if billingCycle subscription = ''monthly'' then price subscription
      else if billingCycle subscription = ''quarterly''
        then n_div ops (price subscription) (n_lit ops 3)
      else if billingCycle subscription = ''yearly''
        then n_div ops (price subscription) (n_lit ops 12)
      else if billingCycle subscription = ''custom'' then price subscription
      else price subscription)"

section \<open>Analytics (dataManager.js)\<close>

text \<open>
  \<^verbatim>\<open>getMonthlySpending\<close>. The object it fills has the month strings as keys, none of which
  is the name of an inherited property: it is the list of its keys and numbers.
  \<^verbatim>\<open>monthlySpending[k] || 0\<close>:
\<close>

definition lookupOrZero :: "'n arith \<Rightarrow> ('k \<times> 'n) list \<Rightarrow> 'k \<Rightarrow> 'n" where
  "lookupOrZero ops obj k =
     (case map_of obj k of None \<Rightarrow> n_lit ops 0 | Some a \<Rightarrow> orZero ops a)"


definition getSpendingByCategory :: "'n env \<Rightarrow> 'n dataManager \<Rightarrow> (string \<times> 'n jsval) list" where
  "getSpendingByCategory e dm =
     foldl (\<lambda>spendingByCategory sub.
              if isActive sub
              then let monthlyRate = calculateMonthlyRate (arith e) sub
                   in setProp (category sub)
                        (orZeroPlus (arith e) (getProp spendingByCategory (category sub))
                           monthlyRate)
                        spendingByCategory
              else spendingByCategory)
       [] (subscriptions dm)"




text \<open>
  \<^verbatim>\<open>getCategoryBreakdown\<close>. The total is \<^verbatim>\<open>Object.values(spending).reduce((sum, amount) => sum
  + amount, 0)\<close>; the comparison of the sort is \<^verbatim>\<open>b.amount - a.amount\<close>, which is NaN, and so
  not above 0, when an amount is no number.
\<close>

record 'n breakdownEntry =
  category_entry :: string
  amount :: "'n jsval"
  percentage_entry :: 'n

definition amountAfter :: "'n arith \<Rightarrow> 'n breakdownEntry \<Rightarrow> 'n breakdownEntry \<Rightarrow> bool" where
  "amountAfter ops a b =
     (case amount a of
        Num x \<Rightarrow>
          (case amount b of
             Num y \<Rightarrow> n_gt ops (n_sub ops y x) (n_lit ops 0)
           | NotNumber \<Rightarrow> False)
      | NotNumber \<Rightarrow> False)"

definition getCategoryBreakdown :: "'n env \<Rightarrow> 'n dataManager \<Rightarrow> 'n breakdownEntry list" where
  "getCategoryBreakdown e dm =
     (let ops = arith e;
          spending = getSpendingByCategory e dm;
          total = foldl (\<lambda>sum amount. plusVal ops sum amount) (Num (n_lit ops 0))
                    (map snd (objectEntries spending))
      in sortBy (amountAfter ops)
           (map (\<lambda>(category, amount).
                   \<lparr>category_entry = category, amount = amount,
                    percentage_entry =
                      (if gtZero ops total
                       then n_round ops
                              (n_mul ops
                                 (n_div ops (toNumber ops amount) (toNumber ops total))
                                 (n_lit ops 100))
                       else n_lit ops 0)\<rparr>)
              (objectEntries spending)))"

section \<open>The monthly rollover (popup.js)\<close>

text \<open>
  What \<^verbatim>\<open>processMonthlyRollover\<close> reads from \<^verbatim>\<open>chrome.storage.local\<close> and the one key it
  writes back, \<^verbatim>\<open>rolloverData\<close>. The calls to the storage are taken to resolve; any
  exception is caught and logged by the function, which then has stored nothing. An
  object read from the storage is the list of its own properties, every key once;
  \<open>categoryBudgets\<close> holds the numbers that the budget dialog saves. The keys of the ledger
  \<open>rolloverData\<close> are month strings.
\<close>

record 'n rollover_settings =
  enabled :: bool
  mode :: string
  percentage :: 'n
  maxAmount :: 'n
  expiry :: string

record 'n categoryRollover =
  budgetAmount :: 'n
  spentAmount :: 'n
  unusedAmount :: 'n
  rolloverAmount :: 'n

record 'n monthlyRollover =
  processed :: bool
  processedAt :: int
  categories_rollover :: "(string \<times> 'n categoryRollover) list"
  totalAmount :: 'n

record 'n storage =
  rolloverSettings :: "'n rollover_settings option"
  rolloverData :: "(monthKey \<times> 'n monthlyRollover) list"
  categoryBudgets :: "(string \<times> 'n) list"
  subscriptions_stored :: "'n subscription list"

text \<open>
  \<^verbatim>\<open>parseInt(string)\<close>: leading white space, a sign, the prefix \<^verbatim>\<open>0x\<close> for base sixteen, then
  the digits up to the first other character; \<^term>\<open>None\<close> is NaN. (The result is exact for
  the numbers below 2^53.)
\<close>

definition isRadixDigit :: "int \<Rightarrow> char \<Rightarrow> bool" where
  "isRadixDigit radix c \<longleftrightarrow>
     isDigit c \<or>
     radix = 16 \<and> (97 \<le> (of_char c :: nat) \<and> (of_char c :: nat) \<le> 102 \<or>
                    65 \<le> (of_char c :: nat) \<and> (of_char c :: nat) \<le> 70)"

definition radixDigitValue :: "char \<Rightarrow> int" where
  "radixDigitValue c =
     (if isDigit c then digitValue c
      else if 97 \<le> (of_char c :: nat) then int (of_char c) - 87
      else int (of_char c) - 55)"

definition parseDigits :: "int \<Rightarrow> string \<Rightarrow> int option" where
  "parseDigits radix s =
     (let ds = takeWhile (isRadixDigit radix) s
      in if ds = [] then None
         else Some (foldl (\<lambda>a c. radix * a + radixDigitValue c) 0 ds))"

definition parseUnsigned :: "string \<Rightarrow> int option" where
  "parseUnsigned s =
     (if take 2 s = ''0x'' \<or> take 2 s = ''0X'' then parseDigits 16 (drop 2 s)
      else parseDigits 10 s)"

definition parseInt :: "string \<Rightarrow> int option" where
  "parseInt s =
     (case dropWhile isWhiteSpace s of
        [] \<Rightarrow> None
      | c # cs \<Rightarrow>
          if c = CHR ''-'' then map_option uminus (parseUnsigned cs)
          else if c = CHR ''+'' then parseUnsigned cs
          else parseUnsigned (c # cs))"

text \<open>
  \<^verbatim>\<open>new Date(month + '-01')\<close> for a key of the ledger: midnight (UTC) of the first day of the
  month for a key \<open>YYYY-MM\<close>, of the first of January for a key that is a year with sign
  and six digits; the invalid date for a year before the range of dates, and for
  anything else.
\<close>

definition dateOfMonthKey :: "monthKey \<Rightarrow> dateValue" where
  "dateOfMonthKey month =
     (if 0 \<le> fst month \<and> fst month \<le> 9999 \<and> 1 \<le> snd month \<and> snd month \<le> 12
      then TimeClip (MakeDate (MakeDay (fst month) (snd month - 1) 1) 0)
      else if snd month = 0 \<and> (fst month < 0 \<or> 9999 < fst month)
      then TimeClip (MakeDate (MakeDay (fst month) 0 1) 0)
      else InvalidDate)"

text \<open>
  \<^verbatim>\<open>monthsDiff\<close> takes the year and the month of both dates in local time; it is NaN
  (\<^term>\<open>None\<close>) when the date of the key is invalid.
\<close>

definition monthsDiff :: "zone \<Rightarrow> int \<Rightarrow> monthKey \<Rightarrow> int option" where
  "monthsDiff z currentDate month =
     (case dateOfMonthKey month of
        InvalidDate \<Rightarrow> None
      | TimeValue monthDate \<Rightarrow>
          Some ((getFullYear z currentDate - getFullYear z monthDate) * 12 +
                (getMonth z currentDate - getMonth z monthDate)))"

text \<open>\<^verbatim>\<open>monthsDiff >= expiryMonths\<close>; a comparison with NaN is false.\<close>

definition isExpired :: "zone \<Rightarrow> int \<Rightarrow> int option \<Rightarrow> monthKey \<Rightarrow> bool" where
  "isExpired z currentDate expiryMonths month =
     (case expiryMonths of
        None \<Rightarrow> False
      | Some n \<Rightarrow>
          (case monthsDiff z currentDate month of None \<Rightarrow> False | Some d \<Rightarrow> d \<ge> n))"

definition cleanupExpired ::
  "zone \<Rightarrow> int \<Rightarrow> 'n rollover_settings \<Rightarrow> (monthKey \<times> 'n monthlyRollover) list \<Rightarrow>
   (monthKey \<times> 'n monthlyRollover) list" where
  "cleanupExpired z now settings data =
     (if expiry settings \<noteq> ''never''
      then filter (\<lambda>entry. \<not> isExpired z now (parseInt (expiry settings)) (fst entry)) data
      else data)"

text \<open>
  The spending of "last month": the prices of the subscriptions active now, added up by
  category in an object created by \<^verbatim>\<open>{}\<close>.
\<close>

definition categorySpending :: "'n arith \<Rightarrow> 'n subscription list \<Rightarrow> (string \<times> 'n jsval) list" where
  "categorySpending ops subs =
     foldl (\<lambda>categorySpending sub.
              setProp (category sub)
                (orZeroPlus ops (getProp categorySpending (category sub)) (price sub))
                categorySpending)
       [] (filter isActive subs)"

text \<open>The \<^verbatim>\<open>switch\<close> on the rollover mode; any other mode leaves the amount at 0.\<close>

definition rolloverFor :: "'n arith \<Rightarrow> 'n rollover_settings \<Rightarrow> 'n \<Rightarrow> 'n" where
  "rolloverFor ops settings unused =
     (if mode settings = ''full'' then unused
      else if mode settings = ''percentage''
        then n_mul ops unused (n_div ops (percentage settings) (n_lit ops 100))
      else if mode settings = ''fixed'' then n_min ops unused (maxAmount settings)
      else n_lit ops 0)"

text \<open>
  One round of the loop over \<^verbatim>\<open>Object.keys(categoryBudgets)\<close>. \<open>spentNumber\<close> is
  \<^verbatim>\<open>categorySpending[category] || 0\<close> when that is a number. When it is none (an inherited
  property, or the string made of one), \<^verbatim>\<open>budgetAmount - spentAmount\<close> is NaN, and so are
  the unused amount and, in each of the three modes, the rollover amount; in any other
  mode that amount is 0. It is not above 0 and nothing is recorded.
\<close>

definition spentNumber :: "'n arith \<Rightarrow> (string \<times> 'n jsval) list \<Rightarrow> string \<Rightarrow> 'n option" where
  "spentNumber ops spending cat =
     (case getProp spending cat of
        None \<Rightarrow> Some (n_lit ops 0)
      | Some (Num a) \<Rightarrow> Some (orZero ops a)
      | Some NotNumber \<Rightarrow> None)"

definition rolloverCategory ::
  "'n arith \<Rightarrow> 'n rollover_settings \<Rightarrow> (string \<times> 'n) list \<Rightarrow> (string \<times> 'n jsval) list \<Rightarrow>
   'n monthlyRollover \<Rightarrow> string \<Rightarrow> 'n monthlyRollover" where
  "rolloverCategory ops settings budgets spending rollover cat =
     (case spentNumber ops spending cat of
        None \<Rightarrow> rollover
      | Some spent \<Rightarrow>
          let budget = lookupOrZero ops budgets cat;
              unused = n_max ops (n_lit ops 0) (n_sub ops budget spent);
              amt = rolloverFor ops settings unused
          in if n_gt ops amt (n_lit ops 0)
             then rollover\<lparr>
                    categories_rollover :=
                      AList.update cat
                        \<lparr>budgetAmount = budget, spentAmount = spent,
                         unusedAmount = unused, rolloverAmount = amt\<rparr>
                        (categories_rollover rollover),
                    totalAmount := n_add ops (totalAmount rollover) amt\<rparr>
             else rollover)"

definition computeRollover ::
  "'n env \<Rightarrow> 'n rollover_settings \<Rightarrow> (string \<times> 'n) list \<Rightarrow> 'n subscription list \<Rightarrow>
   'n monthlyRollover" where
  "computeRollover e settings budgets subs =
     foldl (rolloverCategory (arith e) settings budgets (categorySpending (arith e) subs))
       \<lparr>processed = True, processedAt = clock e, categories_rollover = [],
        totalAmount = n_lit (arith e) 0\<rparr>
       (map fst (objectEntries budgets))"

text \<open>
  The key of "last month": \<^verbatim>\<open>lastMonth.setMonth(lastMonth.getMonth() - 1)\<close> in local time,
  then \<^verbatim>\<open>toISOString().slice(0, 7)\<close> in UTC; \<^verbatim>\<open>toISOString\<close> throws when the date has left
  the range.
\<close>

definition lastMonthKey :: "zone \<Rightarrow> int \<Rightarrow> error + monthKey" where
  "lastMonthKey z now =
     (case toISOString (setMonth z now (getMonth z now - 1)) of
        Inl err \<Rightarrow> Inl err
      | Inr lastMonth \<Rightarrow> Inr (monthKey lastMonth))"

definition alreadyProcessed :: "(monthKey \<times> 'n monthlyRollover) list \<Rightarrow> monthKey \<Rightarrow> bool" where
  "alreadyProcessed data month =
     (case map_of data month of None \<Rightarrow> False | Some entry \<Rightarrow> processed entry)"

definition processMonthlyRollover :: "'n env \<Rightarrow> 'n storage \<Rightarrow> 'n storage" where
  "processMonthlyRollover e st =
     (case rolloverSettings st of
        None \<Rightarrow> st
      | Some settings \<Rightarrow>
          if \<not> enabled settings then st
          else
            (case lastMonthKey (timeZone e) (clock e) of
               Inl err \<Rightarrow> st
             | Inr key \<Rightarrow>
                 if alreadyProcessed (rolloverData st) key then st
                 else
                   st\<lparr>rolloverData :=
                        cleanupExpired (timeZone e) (clock e) settings
                          (AList.update key
                             (computeRollover e settings (categoryBudgets st)
                                (subscriptions_stored st))
                             (rolloverData st))\<rparr>))"

section \<open>The billing cycle calculator of the specification\<close>

text \<open>
  The Billing Cycle Calculator as the specification words it, to compare the code with:
  the same day of the month \<open>k\<close> calendar months later, clamped to the last day of the
  target month when that month is shorter; monthly and custom are one month, quarterly
  three, yearly twelve. \<open>spec_addMonths\<close> is that arithmetic on the calendar, for the local
  time \<open>x\<close>; \<open>spec_nextPaymentAfter\<close> applies it to the local time of a date and gives the
  date whose local time the result is.
\<close>

definition spec_addMonths :: "int \<Rightarrow> int \<Rightarrow> int" where
  "spec_addMonths x k =
     (let ym = YearFromTime x + (MonthFromTime x + k) div 12;
          mn = (MonthFromTime x + k) mod 12;
          d = min (DateFromTime x) (DaysInMonth ym mn)
      in MakeDate (MakeDay ym mn d) (TimeWithinDay x))"

definition cycleMonths :: "string \<Rightarrow> int" where
  "cycleMonths cycle =
     (if cycle = ''quarterly'' then 3 else if cycle = ''yearly'' then 12 else 1)"

definition spec_nextPaymentAfter :: "zone \<Rightarrow> string \<Rightarrow> int \<Rightarrow> dateValue" where
  "spec_nextPaymentAfter z cycle t =
     TimeClip (UTC z (spec_addMonths (LocalTime z t) (cycleMonths cycle)))"

text \<open>The target month of the local time \<open>x\<close>, \<open>k\<close> months on, has the day of the month of \<open>x\<close>.\<close>

definition dayExistsAfter :: "int \<Rightarrow> int \<Rightarrow> bool" where
  "dayExistsAfter x k \<longleftrightarrow>
     DateFromTime x \<le>
       DaysInMonth (YearFromTime x + (MonthFromTime x + k) div 12) ((MonthFromTime x + k) mod 12)"

text \<open>
  The local time \<open>x\<close> is the local time of a date: the time zone reads it as a time that
  is in the range of dates and whose local time is \<open>x\<close> again. (A local time that a change
  of the clocks skips is read as another one.)
\<close>

definition representable :: "zone \<Rightarrow> int \<Rightarrow> bool" where
  "representable z x \<longleftrightarrow> \<bar>UTC z x\<bar> \<le> maxTime \<and> LocalTime z (UTC z x) = x"


text \<open>The monthly rates of the active subscriptions that satisfy \<open>P\<close>, in their order.\<close>

definition activeRates ::
  "'n arith \<Rightarrow> ('n subscription \<Rightarrow> bool) \<Rightarrow> 'n subscription list \<Rightarrow> 'n list" where
  "activeRates ops P subs =
     map (calculateMonthlyRate ops) (filter (\<lambda>s. isActive s \<and> P s) subs)"

section \<open>Properties of the model\<close>

subsection \<open>Facts about the calendar functions\<close>

lemma year_down_le: "DayFromYear (year_down n y) \<le> n"
proof (induction n y rule: year_down.induct)
  case (1 n y)
  then show ?case by (subst year_down.simps) auto
qed

lemma year_up_bounds:
  "DayFromYear y \<le> n \<Longrightarrow>
   DayFromYear (year_up n y) \<le> n \<and> n < DayFromYear (year_up n y + 1)"
proof (induction n y rule: year_up.induct)
  case (1 n y)
  show ?case
  proof (cases "DayFromYear (y + 1) \<le> n")
    case True
    with 1 show ?thesis by (subst (1 2) year_up.simps) simp
  next
    case False
    with 1 show ?thesis by (subst (1 2) year_up.simps) simp
  qed
qed

lemma YearFromDay_bounds:
  "DayFromYear (YearFromDay n) \<le> n" "n < DayFromYear (YearFromDay n + 1)"
  using year_up_bounds [OF year_down_le, of n "1970 + n div 365"]
  by (simp_all add: YearFromDay_def)

lemma DayFromYear_mono_nat: "DayFromYear a \<le> DayFromYear (a + int k)"
proof (induction k)
  case 0
  then show ?case by simp
next
  case (Suc k)
  have "DayFromYear (a + int (Suc k)) = DayFromYear (a + int k) + DaysInYear (a + int k)"
    using DayFromYear_Suc [of "a + int k"] by (simp add: ac_simps)
  with Suc DaysInYear_bounds(1) [of "a + int k"] show ?case by linarith
qed

lemma DayFromYear_mono: "a \<le> b \<Longrightarrow> DayFromYear a \<le> DayFromYear b"
  using DayFromYear_mono_nat [of a "nat (b - a)"] by simp

lemma YearFromDay_unique:
  assumes "DayFromYear y \<le> n" and "n < DayFromYear (y + 1)"
  shows "YearFromDay n = y"
proof (rule ccontr)
  assume ne: "YearFromDay n \<noteq> y"
  show False
  proof (cases "YearFromDay n < y")
    case True
    then have "DayFromYear (YearFromDay n + 1) \<le> DayFromYear y"
      by (intro DayFromYear_mono) simp
    with assms(1) YearFromDay_bounds(2) [of n] show False by linarith
  next
    case False
    with ne have "DayFromYear (y + 1) \<le> DayFromYear (YearFromDay n)"
      by (intro DayFromYear_mono) simp
    with assms(2) YearFromDay_bounds(1) [of n] show False by linarith
  qed
qed

lemma InLeapYear_cases: "InLeapYear y = 0 \<or> InLeapYear y = 1"
  by (simp add: InLeapYear_def)

lemma DaysInYear_leap: "DaysInYear y = 365 + InLeapYear y"
  unfolding InLeapYear_def DaysInYear_def by simp

lemma month_cases:
  "0 \<le> m \<Longrightarrow> m < 12 \<Longrightarrow>
   (m::int) = 0 \<or> m = 1 \<or> m = 2 \<or> m = 3 \<or> m = 4 \<or> m = 5 \<or> m = 6 \<or> m = 7 \<or> m = 8
   \<or> m = 9 \<or> m = 10 \<or> m = 11"
  by arith

lemma monthOfDay_monthStart:
  assumes "L = 0 \<or> L = 1" "0 \<le> m" "m < 12" "1 \<le> d"
    and "d \<le> monthStart L (m + 1) - monthStart L m"
  shows "monthOfDay L (monthStart L m + d - 1) = m"
  using month_cases [OF assms(2,3)] assms(1,4,5)
  by (elim disjE) (simp_all add: monthStart_def monthOfDay_def)

lemma monthStart_range:
  assumes "L = 0 \<or> L = 1" "0 \<le> m" "m < 12" "1 \<le> d"
    and "d \<le> monthStart L (m + 1) - monthStart L m"
  shows "0 \<le> monthStart L m + d - 1" "monthStart L m + d - 1 < 365 + L"
  using month_cases [OF assms(2,3)] assms(1,4,5)
  by (elim disjE; simp add: monthStart_def)+

lemma monthOfDay_range:
  assumes "L = 0 \<or> L = 1" "0 \<le> d" "d < 365 + L"
  shows "0 \<le> monthOfDay L d" "monthOfDay L d < 12"
    "monthStart L (monthOfDay L d) \<le> d" "d < monthStart L (monthOfDay L d + 1)"
  using assms by (auto simp: monthOfDay_def monthStart_def)

lemma Day_MakeDate: "0 \<le> tod \<Longrightarrow> tod < msPerDay \<Longrightarrow> Day (MakeDate D tod) = D"
  by (simp add: Day_def MakeDate_def msPerDay_def)

lemma TimeWithinDay_MakeDate:
  "0 \<le> tod \<Longrightarrow> tod < msPerDay \<Longrightarrow> TimeWithinDay (MakeDate D tod) = tod"
  by (simp add: TimeWithinDay_def MakeDate_def msPerDay_def)

lemma TimeWithinDay_range: "0 \<le> TimeWithinDay t" "TimeWithinDay t < msPerDay"
  by (simp_all add: TimeWithinDay_def msPerDay_def)

lemma MakeDate_Day: "MakeDate (Day t) (TimeWithinDay t) = t"
  by (simp add: MakeDate_def Day_def TimeWithinDay_def)

lemma DayWithinYear_range:
  "0 \<le> DayWithinYear t" "DayWithinYear t < 365 + InLeapYear (YearFromTime t)"
  using YearFromDay_bounds [of "Day t"] DayFromYear_Suc [of "YearFromTime t"]
  by (simp_all add: DayWithinYear_def YearFromTime_def DaysInYear_leap)

lemma MonthFromTime_range: "0 \<le> MonthFromTime t" "MonthFromTime t < 12"
  using monthOfDay_range(1,2) [OF InLeapYear_cases DayWithinYear_range]
  by (simp_all add: MonthFromTime_def)

lemma DateFromTime_range:
  "1 \<le> DateFromTime t" "DateFromTime t \<le> DaysInMonth (YearFromTime t) (MonthFromTime t)"
  using monthOfDay_range(3,4) [OF InLeapYear_cases DayWithinYear_range, of t]
  by (simp_all add: DateFromTime_def MonthFromTime_def DaysInMonth_def)

lemma MakeDay_normal:
  "0 \<le> m \<Longrightarrow> m < 12 \<Longrightarrow>
   MakeDay y m d = DayFromYear y + monthStart (InLeapYear y) m + d - 1"
  by (simp add: MakeDay_def)

lemma MakeDay_fields:
  "MakeDay (YearFromTime t) (MonthFromTime t) (DateFromTime t) = Day t"
  using MonthFromTime_range [of t]
  by (simp add: MakeDay_normal DateFromTime_def DayWithinYear_def)

lemma MakeDate_fields:
  "MakeDate (MakeDay (YearFromTime t) (MonthFromTime t) (DateFromTime t)) (TimeWithinDay t) = t"
  by (simp add: MakeDay_fields MakeDate_Day)

lemma fields_MakeDate:
  assumes m: "0 \<le> m" "m < 12" and d: "1 \<le> d" "d \<le> DaysInMonth y m"
    and tod: "0 \<le> tod" "tod < msPerDay"
  shows "YearFromTime (MakeDate (MakeDay y m d) tod) = y"
    and "MonthFromTime (MakeDate (MakeDay y m d) tod) = m"
    and "DateFromTime (MakeDate (MakeDay y m d) tod) = d"
    and "TimeWithinDay (MakeDate (MakeDay y m d) tod) = tod"
proof -
  let ?L = "InLeapYear y"
  let ?t = "MakeDate (MakeDay y m d) tod"
  have d': "d \<le> monthStart ?L (m + 1) - monthStart ?L m"
    using d(2) by (simp add: DaysInMonth_def)
  have day: "Day ?t = DayFromYear y + monthStart ?L m + d - 1"
    using m tod by (simp add: Day_MakeDate MakeDay_normal)
  have r: "0 \<le> monthStart ?L m + d - 1" "monthStart ?L m + d - 1 < 365 + ?L"
    using monthStart_range [OF InLeapYear_cases m d(1) d'] by simp_all
  show y: "YearFromTime ?t = y"
    unfolding YearFromTime_def day
    by (rule YearFromDay_unique) (use r in \<open>simp_all add: DayFromYear_Suc DaysInYear_leap\<close>)
  have dwy: "DayWithinYear ?t = monthStart ?L m + d - 1"
    by (simp add: DayWithinYear_def y day)
  show mm: "MonthFromTime ?t = m"
    unfolding MonthFromTime_def y dwy
    by (rule monthOfDay_monthStart [OF InLeapYear_cases m d(1) d'])
  show "DateFromTime ?t = d"
    by (simp add: DateFromTime_def y mm dwy)
  show "TimeWithinDay ?t = tod"
    using tod by (rule TimeWithinDay_MakeDate)
qed

lemma MakeDay_month_norm: "MakeDay y m d = MakeDay (y + m div 12) (m mod 12) d"
  by (simp add: MakeDay_def)

lemma DaysInMonth_ge_28: "0 \<le> m \<Longrightarrow> m < 12 \<Longrightarrow> 28 \<le> DaysInMonth y m"
  using month_cases [of m] InLeapYear_cases [of y]
  by (auto simp: DaysInMonth_def monthStart_def)

lemma DaysInMonth_le_31: "0 \<le> m \<Longrightarrow> m < 12 \<Longrightarrow> DaysInMonth y m \<le> 31"
  using month_cases [of m] InLeapYear_cases [of y]
  by (auto simp: DaysInMonth_def monthStart_def)

lemma MakeDay_day_overflow:
  assumes "0 \<le> m" "m < 12"
  shows "MakeDay y m d = MakeDay y (m + 1) (d - DaysInMonth y m)"
proof (cases "m = 11")
  case True
  then show ?thesis
    by (simp add: MakeDay_def DaysInMonth_def monthStart_def DayFromYear_Suc DaysInYear_leap)
next
  case False
  with assms have "0 \<le> m + 1" "m + 1 < 12" by simp_all
  then show ?thesis
    using assms by (simp add: MakeDay_normal DaysInMonth_def)
qed

subsection \<open>Lookup by identifier\<close>

lemma findIndex_None_iff: "findIndex P xs = None \<longleftrightarrow> (\<forall>x \<in> set xs. \<not> P x)"
  by (induction xs) auto

lemma findIndex_Some:
  "findIndex P xs = Some k \<Longrightarrow> k < length xs \<and> P (xs ! k) \<and> (\<forall>j < k. \<not> P (xs ! j))"
proof (induction xs arbitrary: k)
  case Nil
  then show ?case by simp
next
  case (Cons x xs)
  show ?case
  proof (cases "P x")
    case True
    with Cons.prems show ?thesis by simp
  next
    case False
    with Cons.prems obtain k' where k': "findIndex P xs = Some k'" "k = Suc k'"
      by auto
    from Cons.IH [OF k'(1)] False k'(2) show ?thesis
      by (auto simp: less_Suc_eq_0_disj)
  qed
qed


lemma find_None_findIndex: "find P xs = None \<Longrightarrow> findIndex P xs = None"
  by (simp add: find_None_iff findIndex_None_iff)


lemma findIndex_eq_remove1:
  "findIndex (\<lambda>c. c = x) xs = Some k \<Longrightarrow> splice1 k xs = remove1 x xs"
proof (induction xs arbitrary: k)
  case Nil
  then show ?case by simp
next
  case (Cons y ys)
  show ?case
  proof (cases "y = x")
    case True
    with Cons.prems show ?thesis by (simp add: splice1_def)
  next
    case False
    with Cons.prems obtain k' where k': "findIndex (\<lambda>c. c = x) ys = Some k'" "k = Suc k'"
      by auto
    from Cons.IH [OF k'(1)] False k'(2) show ?thesis
      by (simp add: splice1_def)
  qed
qed

subsection \<open>The lifecycle operations on a stored subscription\<close>









lemma applyUpdates_skip:
  "applyUpdates sub
     (noUpdates\<lparr>u_nextPaymentDate := Some (Some t), u_skippedPayments := Some (Some k)\<rparr>) now =
   sub\<lparr>nextPaymentDate := Some t, skippedPayments := Some k, updatedAt := now\<rparr>"
  by (cases sub) (simp add: applyUpdates_def noUpdates_def)





subsection \<open>Sums collected under one key\<close>

lemma orZero_lit0 [simp]: "orZero ops (n_lit ops 0) = n_lit ops 0"
  by (simp add: orZero_def)

lemma activeRates_simps [simp]:
  "activeRates ops P [] = []"
  "activeRates ops P (s # subs) =
     (if isActive s \<and> P s then calculateMonthlyRate ops s # activeRates ops P subs
      else activeRates ops P subs)"
  by (simp_all add: activeRates_def)





section \<open>Resuming a paused subscription\<close>




section \<open>Unknown identifiers\<close>

text \<open>
  C5, as the code has it. For an identifier that no stored subscription carries:
  \<^verbatim>\<open>updateSubscription\<close> (given an updates object) and \<^verbatim>\<open>deleteSubscription\<close>, called with a
  non-empty identifier, raise the not-found error, which is none of the validation errors,
  and leave the store as it was; \<^verbatim>\<open>pauseSubscription\<close>, \<^verbatim>\<open>resumeSubscription\<close> and
  \<^verbatim>\<open>skipNextPayment\<close> raise nothing: they return \<^verbatim>\<open>null\<close> and leave the store as it was.
\<close>

theorem unknown_id_outcomes:
  "i \<notin> id_sub ` set (subscriptions dm) \<longrightarrow>
     pauseSubscription e i dm = (Inr None, dm) \<and>
     resumeSubscription e i dm = (Inr None, dm) \<and>
     skipNextPayment e i dm = (Inr None, dm) \<and>
     (i \<noteq> [] \<longrightarrow>
        updateSubscription e i (Some u) dm = (Inl (NotFound i), dm) \<and>
        deleteSubscription e i dm = (Inl (NotFound i), dm)) \<and>
     isNotFound (NotFound i) \<and> \<not> isValidationError (NotFound i)"
proof
  assume a: "i \<notin> id_sub ` set (subscriptions dm)"
  then have f: "find (\<lambda>sub. id_sub sub = i) (subscriptions dm) = None"
    by (auto simp: find_None_iff)
  then have fi: "findIndex (\<lambda>sub. id_sub sub = i) (subscriptions dm) = None"
    by (rule find_None_findIndex)
  show "pauseSubscription e i dm = (Inr None, dm) \<and>
     resumeSubscription e i dm = (Inr None, dm) \<and>
     skipNextPayment e i dm = (Inr None, dm) \<and>
     (i \<noteq> [] \<longrightarrow>
        updateSubscription e i (Some u) dm = (Inl (NotFound i), dm) \<and>
        deleteSubscription e i dm = (Inl (NotFound i), dm)) \<and>
     isNotFound (NotFound i) \<and> \<not> isValidationError (NotFound i)"
    by (simp add: pauseSubscription_def resumeSubscription_def skipNextPayment_def
        updateSubscription_def deleteSubscription_def f fi)
qed

theorem unknown_id_outcomes_witness:
  "pauseSubscription \<lparr>clock = 0, freshId = ''n1'', storageOk = True, timeZone = fixedZone 0,
        arith = exactArith\<rparr> ''ghost''
       \<lparr>subscriptions = [], categories = [''other'']\<rparr>
     = (Inr None, \<lparr>subscriptions = [], categories = [''other'']\<rparr>) \<and>
   deleteSubscription \<lparr>clock = 0, freshId = ''n1'', storageOk = True, timeZone = fixedZone 0,
        arith = exactArith\<rparr> ''ghost''
       \<lparr>subscriptions = [], categories = [''other'']\<rparr>
     = (Inl (NotFound ''ghost''), \<lparr>subscriptions = [], categories = [''other'']\<rparr>)"
  using unknown_id_outcomes [of "''ghost''" "\<lparr>subscriptions = [], categories = [''other'']\<rparr>"
      "\<lparr>clock = 0, freshId = ''n1'', storageOk = True, timeZone = fixedZone 0,
        arith = exactArith\<rparr>" noUpdates]
  by simp

text \<open>
  The claim as stated fails for the lifecycle operations: on a store without the
  identifier, \<^verbatim>\<open>skipNextPayment\<close> raises no error at all.
\<close>

theorem lifecycle_unknown_id_counterexample:
  "fst (skipNextPayment \<lparr>clock = 0, freshId = ''n1'', storageOk = True, timeZone = fixedZone 0,
        arith = exactArith\<rparr> ''ghost''
       \<lparr>subscriptions = [], categories = [''other'']\<rparr>) = Inr None"
  by (simp add: skipNextPayment_def)

section \<open>Removing a category\<close>

text \<open>
  C7. When \<^verbatim>\<open>removeCategory\<close> removes a category (the name is in the list and the list
  has more than one entry), every subscription of that category is reassigned to
  \<open>other\<close>, every other subscription is kept as it is, and the first occurrence of the
  name leaves the list. A list that is not empty never becomes empty: with one category
  left (or none, or an unknown name) nothing is removed.
\<close>

theorem removeCategory_reassigns_to_other:
  "(categoryName \<in> set (categories dm) \<and> 1 < length (categories dm) \<longrightarrow>
      subscriptions (snd (removeCategory e categoryName dm)) =
        map (\<lambda>sub. if category sub = categoryName then sub\<lparr>category := ''other''\<rparr> else sub)
          (subscriptions dm) \<and>
      (\<forall>sub \<in> set (subscriptions (snd (removeCategory e categoryName dm))).
         category sub = categoryName \<longrightarrow> categoryName = ''other'') \<and>
      categories (snd (removeCategory e categoryName dm)) = remove1 categoryName (categories dm)) \<and>
   (categories dm \<noteq> [] \<longrightarrow> categories (snd (removeCategory e categoryName dm)) \<noteq> []) \<and>
   (length (categories dm) \<le> 1 \<or> categoryName \<notin> set (categories dm) \<longrightarrow>
      removeCategory e categoryName dm = (Inr (), dm))"
proof (intro conjI impI)
  assume a: "categoryName \<in> set (categories dm) \<and> 1 < length (categories dm)"
  then obtain k where k: "findIndex (\<lambda>c. c = categoryName) (categories dm) = Some k"
    using findIndex_None_iff [of "\<lambda>c. c = categoryName" "categories dm"] by auto
  show "subscriptions (snd (removeCategory e categoryName dm)) =
        map (\<lambda>sub. if category sub = categoryName then sub\<lparr>category := ''other''\<rparr> else sub)
          (subscriptions dm)"
    using a k by (simp add: removeCategory_def)
  then show "\<forall>sub \<in> set (subscriptions (snd (removeCategory e categoryName dm))).
         category sub = categoryName \<longrightarrow> categoryName = ''other''"
    by auto
  show "categories (snd (removeCategory e categoryName dm)) = remove1 categoryName (categories dm)"
    using a k findIndex_eq_remove1 [OF k] by (simp add: removeCategory_def)
next
  assume ne: "categories dm \<noteq> []"
  show "categories (snd (removeCategory e categoryName dm)) \<noteq> []"
  proof (cases "findIndex (\<lambda>c. c = categoryName) (categories dm)")
    case None
    with ne show ?thesis by (simp add: removeCategory_def)
  next
    case (Some k)
    have "categoryName \<in> set (categories dm)"
      using findIndex_Some [OF Some] nth_mem [of k "categories dm"] by auto
    then have "length (remove1 categoryName (categories dm)) = length (categories dm) - 1"
      by (simp add: length_remove1)
    then have "1 < length (categories dm) \<Longrightarrow> remove1 categoryName (categories dm) \<noteq> []"
      by auto
    with ne Some findIndex_eq_remove1 [OF Some] show ?thesis
      by (simp add: removeCategory_def)
  qed
next
  assume "length (categories dm) \<le> 1 \<or> categoryName \<notin> set (categories dm)"
  then show "removeCategory e categoryName dm = (Inr (), dm)"
    using findIndex_None_iff [of "\<lambda>c. c = categoryName" "categories dm"]
    by (auto simp: removeCategory_def split: option.splits)
qed

text \<open>
  Removing \<open>music\<close> from the categories \<open>music, other\<close>: the music subscription moves to
  \<open>other\<close>, the other one stays, and \<open>other\<close> is the list that remains.
\<close>

theorem removeCategory_reassigns_to_other_witness:
  "snd (removeCategory \<lparr>clock = 7, freshId = ''n1'', storageOk = True, timeZone = fixedZone 0, arith = exactArith\<rparr> ''music''
     \<lparr>subscriptions =
        [\<lparr>id_sub = ''s1'', name = ''Spotify'', price = 10, category = ''music'',
          billingCycle = ''monthly'', startDate = TimeValue 0, nextPaymentDate = None,
          isActive = True, createdAt = 0, updatedAt = 0, notes_sub = [], website = [],
          trialPeriod = 0, pausedAt = None, skippedPayments = None\<rparr>,
         \<lparr>id_sub = ''s2'', name = ''Power'', price = 40, category = ''utilities'',
          billingCycle = ''monthly'', startDate = TimeValue 0, nextPaymentDate = None,
          isActive = True, createdAt = 0, updatedAt = 0, notes_sub = [], website = [],
          trialPeriod = 0, pausedAt = None, skippedPayments = None\<rparr>],
      categories = [''music'', ''other'']\<rparr>) =
     \<lparr>subscriptions =
        [\<lparr>id_sub = ''s1'', name = ''Spotify'', price = 10, category = ''other'',
          billingCycle = ''monthly'', startDate = TimeValue 0, nextPaymentDate = None,
          isActive = True, createdAt = 0, updatedAt = 0, notes_sub = [], website = [],
          trialPeriod = 0, pausedAt = None, skippedPayments = None\<rparr>,
         \<lparr>id_sub = ''s2'', name = ''Power'', price = 40, category = ''utilities'',
          billingCycle = ''monthly'', startDate = TimeValue 0, nextPaymentDate = None,
          isActive = True, createdAt = 0, updatedAt = 0, notes_sub = [], website = [],
          trialPeriod = 0, pausedAt = None, skippedPayments = None\<rparr>],
      categories = [''other'']\<rparr>"
proof -
  let ?dm = "\<lparr>subscriptions =
        [\<lparr>id_sub = ''s1'', name = ''Spotify'', price = 10, category = ''music'',
          billingCycle = ''monthly'', startDate = TimeValue 0, nextPaymentDate = None,
          isActive = True, createdAt = 0, updatedAt = 0, notes_sub = [], website = [],
          trialPeriod = 0, pausedAt = None, skippedPayments = None\<rparr>,
         \<lparr>id_sub = ''s2'', name = ''Power'', price = 40, category = ''utilities'',
          billingCycle = ''monthly'', startDate = TimeValue 0, nextPaymentDate = None,
          isActive = True, createdAt = 0, updatedAt = 0, notes_sub = [], website = [],
          trialPeriod = 0, pausedAt = None, skippedPayments = None\<rparr>],
      categories = [''music'', ''other'']\<rparr>"
  have h: "''music'' \<in> set (categories ?dm) \<and> 1 < length (categories ?dm)"
    by simp
  show ?thesis
    using h removeCategory_reassigns_to_other [of "''music''" ?dm
        "\<lparr>clock = 7, freshId = ''n1'', storageOk = True, timeZone = fixedZone 0, arith = exactArith\<rparr>"]
    by (simp add: dataManager.equality)
qed

section \<open>Monthly spending and the trend\<close>



section \<open>Validation failures leave the collection alone\<close>

text \<open>
  C10. Whenever \<^verbatim>\<open>addSubscription\<close> or \<^verbatim>\<open>updateSubscription\<close> raises one of the validation
  errors, the subscriptions are exactly what they were before the call. The errors are
  raised where the claim says: by \<^verbatim>\<open>addSubscription\<close> on a non-object and on a name that
  is missing or empty after trimming, by \<^verbatim>\<open>updateSubscription\<close> on a non-object.
\<close>

theorem validation_failure_keeps_subscriptions:
  "(\<forall>err. fst (addSubscription e d dm) = Inl err \<and> isValidationError err \<longrightarrow>
       subscriptions (snd (addSubscription e d dm)) = subscriptions dm) \<and>
   (\<forall>err. fst (updateSubscription e i upd dm) = Inl err \<and> isValidationError err \<longrightarrow>
       subscriptions (snd (updateSubscription e i upd dm)) = subscriptions dm) \<and>
   addSubscription e None dm = (Inl InvalidSubscriptionData, dm) \<and>
   ((case d_name sd of None \<Rightarrow> True | Some n \<Rightarrow> trim n = []) \<longrightarrow>
       addSubscription e (Some sd) dm = (Inl NameRequired, dm)) \<and>
   (i \<noteq> [] \<longrightarrow> updateSubscription e i None dm = (Inl InvalidUpdates, dm))"
proof (intro conjI allI impI)
  fix err
  assume "fst (addSubscription e d dm) = Inl err \<and> isValidationError err"
  then show "subscriptions (snd (addSubscription e d dm)) = subscriptions dm"
    by (cases d) (auto simp: addSubscription_def saveAllData_def Let_def split: if_splits)
next
  fix err
  assume "fst (updateSubscription e i upd dm) = Inl err \<and> isValidationError err"
  then show "subscriptions (snd (updateSubscription e i upd dm)) = subscriptions dm"
    by (cases upd)
      (auto simp: updateSubscription_def saveAllData_def Let_def split: if_splits option.splits)
next
  show "addSubscription e None dm = (Inl InvalidSubscriptionData, dm)"
    by (simp add: addSubscription_def)
next
  assume "case d_name sd of None \<Rightarrow> True | Some n \<Rightarrow> trim n = []"
  then show "addSubscription e (Some sd) dm = (Inl NameRequired, dm)"
    by (cases "d_name sd") (simp_all add: addSubscription_def)
next
  assume "i \<noteq> []"
  then show "updateSubscription e i None dm = (Inl InvalidUpdates, dm)"
    by (simp add: updateSubscription_def)
qed

text \<open>A name of blanks only is rejected, and the store keeps its one subscription.\<close>

theorem validation_failure_keeps_subscriptions_witness:
  "addSubscription \<lparr>clock = 5, freshId = ''n1'', storageOk = True, timeZone = fixedZone 0,
       arith = exactArith\<rparr>
     (Some \<lparr>d_name = Some ''  '', d_price = Some 3, d_category = None, d_billingCycle = None,
            d_startDate = None, d_nextPaymentDate = None, d_isActive = None, d_notes = None,
            d_website = None, d_trialPeriod = None\<rparr>)
     \<lparr>subscriptions =
        [\<lparr>id_sub = ''s1'', name = ''Netflix'', price = 12, category = ''entertainment'',
          billingCycle = ''monthly'', startDate = TimeValue 0, nextPaymentDate = None,
          isActive = True, createdAt = 0, updatedAt = 0, notes_sub = [], website = [],
          trialPeriod = 0, pausedAt = None, skippedPayments = None\<rparr>],
      categories = [''other'']\<rparr> =
   (Inl NameRequired,
    \<lparr>subscriptions =
        [\<lparr>id_sub = ''s1'', name = ''Netflix'', price = 12, category = ''entertainment'',
          billingCycle = ''monthly'', startDate = TimeValue 0, nextPaymentDate = None,
          isActive = True, createdAt = 0, updatedAt = 0, notes_sub = [], website = [],
          trialPeriod = 0, pausedAt = None, skippedPayments = None\<rparr>],
      categories = [''other'']\<rparr>)"
proof -
  let ?sd = "\<lparr>d_name = Some ''  '', d_price = Some 3, d_category = None, d_billingCycle = None,
            d_startDate = None, d_nextPaymentDate = None, d_isActive = None, d_notes = None,
            d_website = None, d_trialPeriod = None\<rparr>"
  have h: "case d_name ?sd of None \<Rightarrow> True | Some n \<Rightarrow> trim n = []"
    by (simp add: trim_def isWhiteSpace_def)
  show ?thesis
    using h validation_failure_keeps_subscriptions [where sd = ?sd]
    by blast
qed

end
